theory Spec2Isabelle
  imports Complex_Main
begin

section \<open>JavaScript string primitives\<close>

text \<open>
  The decoder of the proxy works on JavaScript strings with the built-in string methods
  and a few regular expressions. A string is modelled as a list of code units; the model
  covers the code units 0..255 (\<^typ>\<open>char\<close>), on which \<open>toLowerCase\<close> stays inside the
  range. The functions below are the string methods the source calls, at the argument
  shapes it calls them with.
\<close>

definition CR :: char where "CR = CHR 0x0D"
definition LF :: char where "LF = CHR 0x0A"

definition crlf2 :: string where
  \<comment> \<open>the literal \<open>"\r\n\r\n"\<close>\<close>
  "crlf2 = [CR, LF, CR, LF]"

definition isWs :: "char \<Rightarrow> bool" where
  \<comment> \<open>\<open>\s\<close> of a regular expression and the characters \<open>trim()\<close> removes: TAB, LF, VT, FF,
      CR, SPACE and NBSP are the ones below 256\<close>
  "isWs c = (c = CHR 0x09 \<or> c = CHR 0x0A \<or> c = CHR 0x0B \<or> c = CHR 0x0C \<or> c = CHR 0x0D
             \<or> c = CHR 0x20 \<or> c = CHR 0xA0)"

definition lowerChar :: "char \<Rightarrow> char" where
  \<comment> \<open>A-Z, and the Latin-1 capitals 0xC0..0xDE without the multiplication sign 0xD7\<close>
  "lowerChar c =
     (let n = (of_char c :: nat)
      in if (65 \<le> n \<and> n \<le> 90) \<or> (192 \<le> n \<and> n \<le> 222 \<and> n \<noteq> 215)
         then char_of (n + 32) else c)"

definition toLowerCase :: "string \<Rightarrow> string" where
  "toLowerCase s = map lowerChar s"

definition trim :: "string \<Rightarrow> string" where
  "trim s = rev (dropWhile isWs (rev (dropWhile isWs s)))"

definition stripWs :: "string \<Rightarrow> string" where
  \<comment> \<open>\<open>s.replace(/\s/g, "")\<close>\<close>
  "stripWs s = filter (\<lambda>c. \<not> isWs c) s"

definition startsWith :: "string \<Rightarrow> string \<Rightarrow> bool" where
  "startsWith s p = (take (length p) s = p)"

fun indexOf :: "string \<Rightarrow> string \<Rightarrow> nat option" where
  \<comment> \<open>\<open>s.indexOf(p)\<close>; \<open>None\<close> is the result -1\<close>
  "indexOf [] p = (if p = [] then Some 0 else None)"
| "indexOf (c # cs) p =
     (if startsWith (c # cs) p then Some 0 else map_option Suc (indexOf cs p))"

definition includes_str :: "string \<Rightarrow> string \<Rightarrow> bool" where
  "includes_str s p = (indexOf s p \<noteq> None)"

function splitStr :: "string \<Rightarrow> string \<Rightarrow> string \<Rightarrow> string list" where
  \<comment> \<open>\<open>s.split(sep)\<close> for a separator that is not empty (the source splits on
      \<open>"--" + boundary\<close>); \<open>acc\<close> holds the current piece, reversed\<close>
  "splitStr sep acc [] = [rev acc]"
| "splitStr sep acc (c # cs) =
     (if sep \<noteq> [] \<and> startsWith (c # cs) sep
      then rev acc # splitStr sep [] (drop (length sep) (c # cs))
      else splitStr sep (c # acc) cs)"
  by pat_completeness auto
termination
  by (relation "measure (\<lambda>(sep, acc, s). length s)") auto

definition split :: "string \<Rightarrow> string \<Rightarrow> string list" where
  "split s sep = splitStr sep [] s"

definition stripTrailingDashes :: "string \<Rightarrow> string" where
  \<comment> \<open>\<open>s.replace(/--$/, "")\<close>: the only place the pattern can match is the last two
      characters\<close>
  "stripTrailingDashes s =
     (if 2 \<le> length s \<and> drop (length s - 2) s = ''--'' then take (length s - 2) s else s)"

subsection \<open>The regular expressions of the source\<close>

definition literalAt :: "bool \<Rightarrow> string \<Rightarrow> string \<Rightarrow> bool" where
  \<comment> \<open>the literal prefix of a pattern, \<open>key\<close> written in lower case; with the flag \<open>i\<close>
      an ASCII letter of the pattern matches both of its cases and nothing else below 256\<close>
  "literalAt ci key s =
     (if ci then toLowerCase (take (length key) s) = key else take (length key) s = key)"

definition tokenChar :: "char \<Rightarrow> bool" where
  \<comment> \<open>\<open>[^";\r\n]\<close>\<close>
  "tokenChar c = (c \<noteq> CHR 0x22 \<and> c \<noteq> CHR '';'' \<and> c \<noteq> CR \<and> c \<noteq> LF)"

definition tokenAt :: "string \<Rightarrow> string \<Rightarrow> string option" where
  \<comment> \<open>\<open>key"?([^";\r\n]+)"?\<close> with flag \<open>i\<close>, anchored at the start of \<open>s\<close>: the optional
      quote is taken when it is there (without it the group would have to start at the
      quote), and the group is the longest run\<close>
  "tokenAt key s =
     (if literalAt True key s
      then (let r = drop (length key) s;
                r' = (case r of [] \<Rightarrow> [] | c # cs \<Rightarrow> if c = CHR 0x22 then cs else r);
                g = takeWhile tokenChar r'
            in if g = [] then None else Some g)
      else None)"

fun matchToken :: "string \<Rightarrow> string \<Rightarrow> string option" where
  \<comment> \<open>\<open>s.match(/key"?([^";\r\n]+)"?/i)\<close>: group 1 of the leftmost match, \<open>None\<close> for null;
      used with \<open>boundary=\<close> and \<open>filename=\<close>\<close>
  "matchToken key [] = None"
| "matchToken key (c # cs) =
     (case tokenAt key (c # cs) of Some g \<Rightarrow> Some g | None \<Rightarrow> matchToken key cs)"

definition encodingAt :: "bool \<Rightarrow> string \<Rightarrow> string option" where
  \<comment> \<open>\<open>content-transfer-encoding:\s*(\S+)\<close> anchored at the start of \<open>s\<close>: giving back
      white space never helps \<open>\S+\<close>, so the group starts after the whole run\<close>
  "encodingAt ci s =
     (if literalAt ci ''content-transfer-encoding:'' s
      then (let g = takeWhile (\<lambda>c. \<not> isWs c)
                      (dropWhile isWs (drop (length ''content-transfer-encoding:'') s))
            in if g = [] then None else Some g)
      else None)"

fun matchEncoding :: "bool \<Rightarrow> string \<Rightarrow> string option" where
  \<comment> \<open>\<open>s.match(/content-transfer-encoding:\s*(\S+)/)\<close>, with the flag \<open>i\<close> when \<open>ci\<close>\<close>
  "matchEncoding ci [] = None"
| "matchEncoding ci (c # cs) =
     (case encodingAt ci (c # cs) of Some g \<Rightarrow> Some g | None \<Rightarrow> matchEncoding ci cs)"

definition ctChar :: "char \<Rightarrow> bool" where
  \<comment> \<open>\<open>[^;\r\n]\<close>\<close>
  "ctChar c = (c \<noteq> CHR '';'' \<and> c \<noteq> CR \<and> c \<noteq> LF)"

fun ctBacktrack :: "string \<Rightarrow> nat \<Rightarrow> string option" where
  \<comment> \<open>\<open>\s*\<close> has taken \<open>j\<close> characters of \<open>r\<close>; the group \<open>[^;\r\n]+\<close> is tried there, and
      \<open>\s*\<close> gives one character back when it fails (a space or a tab can start the group)\<close>
  "ctBacktrack r 0 = (let g = takeWhile ctChar r in if g = [] then None else Some g)"
| "ctBacktrack r (Suc j) =
     (let g = takeWhile ctChar (drop (Suc j) r)
      in if g = [] then ctBacktrack r j else Some g)"

definition contentTypeAt :: "string \<Rightarrow> string option" where
  "contentTypeAt s =
     (if literalAt True ''content-type:'' s
      then (let r = drop (length ''content-type:'') s
            in ctBacktrack r (length (takeWhile isWs r)))
      else None)"

fun matchContentType :: "string \<Rightarrow> string option" where
  \<comment> \<open>\<open>s.match(/Content-Type:\s*([^;\r\n]+)/i)\<close>\<close>
  "matchContentType [] = None"
| "matchContentType (c # cs) =
     (case contentTypeAt (c # cs) of Some g \<Rightarrow> Some g | None \<Rightarrow> matchContentType cs)"

section \<open>The transfer-encoding decoder\<close>

datatype error = DecodeError

fun qpSoft :: "string \<Rightarrow> string" where
  \<comment> \<open>\<open>content.replace(/=\r?\n/g, "")\<close>\<close>
  "qpSoft (a # b # c # cs) =
     (if a = CHR ''='' \<and> b = CR \<and> c = LF then qpSoft cs
      else if a = CHR ''='' \<and> b = LF then qpSoft (c # cs)
      else a # qpSoft (b # c # cs))"
| "qpSoft [a, b] = (if a = CHR ''='' \<and> b = LF then [] else a # qpSoft [b])"
| "qpSoft [a] = [a]"
| "qpSoft [] = []"

definition isHex :: "char \<Rightarrow> bool" where
  \<comment> \<open>\<open>[0-9A-Fa-f]\<close>\<close>
  "isHex c = (let n = (of_char c :: nat)
              in (48 \<le> n \<and> n \<le> 57) \<or> (65 \<le> n \<and> n \<le> 70) \<or> (97 \<le> n \<and> n \<le> 102))"

definition hexVal :: "char \<Rightarrow> nat" where
  "hexVal c = (let n = (of_char c :: nat)
               in if n \<le> 57 then n - 48 else if n \<le> 70 then n - 55 else n - 87)"

definition fromHex :: "char \<Rightarrow> char \<Rightarrow> char" where
  \<comment> \<open>\<open>String.fromCharCode(parseInt(hex, 16))\<close> for two hexadecimal digits\<close>
  "fromHex b c = char_of (16 * hexVal b + hexVal c)"

fun qpHex :: "string \<Rightarrow> string" where
  \<comment> \<open>\<open>.replace(/=([0-9A-Fa-f]{2})/g, (_, hex) => String.fromCharCode(parseInt(hex, 16)))\<close>\<close>
  "qpHex (a # b # c # cs) =
     (if a = CHR ''='' \<and> isHex b \<and> isHex c then fromHex b c # qpHex cs
      else a # qpHex (b # c # cs))"
| "qpHex [a, b] = [a, b]"
| "qpHex [a] = [a]"
| "qpHex [] = []"

definition decodePart :: "(string \<Rightarrow> error + string) \<Rightarrow> string \<Rightarrow> string \<Rightarrow> string" where
  \<comment> \<open>\<open>fromBase64\<close> stands for \<open>Buffer.from(_, "base64").toString("utf-8")\<close> of the
      runtime, \<open>Inl\<close> when it throws; the \<open>try\<close>/\<open>catch\<close> around it is the case distinction\<close>
  "decodePart fromBase64 content encoding =
     (if encoding = [] then content
      else (let enc = trim (toLowerCase encoding)
            in if enc = ''base64''
               then (case fromBase64 (stripWs content) of
                       Inl e \<Rightarrow> content
                     | Inr decoded \<Rightarrow> decoded)
               else if enc = ''quoted-printable'' then qpHex (qpSoft content)
               else content))"

section \<open>The base64 decoder of the runtime\<close>

text \<open>
  \<open>decodePart\<close> calls \<open>Buffer.from(_, "base64").toString("utf-8")\<close> of Node.js. The decoder
  is lenient: it reads the characters of the alphabet, passes over the others and stops at
  the first \<open>=\<close>; the bytes are then decoded as UTF-8, a malformed sequence giving U+FFFD.
\<close>

definition unbase64 :: "char \<Rightarrow> int option" where
  \<comment> \<open>the value of a character of the alphabet, the one of RFC 4648 and the URL-safe one;
      \<open>None\<close> for every other character\<close>
  "unbase64 c =
     (let n = (of_char c :: int)
      in if 65 \<le> n \<and> n \<le> 90 then Some (n - 65)
         else if 97 \<le> n \<and> n \<le> 122 then Some (n - 71)
         else if 48 \<le> n \<and> n \<le> 57 then Some (n + 4)
         else if c = CHR ''+'' \<or> c = CHR ''-'' then Some 62
         else if c = CHR ''/'' \<or> c = CHR ''_'' then Some 63
         else None)"

fun sextets :: "string \<Rightarrow> int list" where
  \<comment> \<open>the decoder skips a character outside the alphabet and stops at the first \<open>=\<close>\<close>
  "sextets [] = []"
| "sextets (c # cs) =
     (if c = CHR ''='' then []
      else (case unbase64 c of None \<Rightarrow> sextets cs | Some v \<Rightarrow> v # sextets cs))"

fun decodeSextets :: "int list \<Rightarrow> int list" where
  \<comment> \<open>four characters give three bytes; two or three left over give one or two bytes, one
      left over gives none\<close>
  "decodeSextets (a # b # c # d # r) =
     (a * 4 + b div 16) # ((b mod 16) * 16 + c div 4) # ((c mod 4) * 64 + d) # decodeSextets r"
| "decodeSextets [a, b, c] = [a * 4 + b div 16, (b mod 16) * 16 + c div 4]"
| "decodeSextets [a, b] = [a * 4 + b div 16]"
| "decodeSextets [a] = []"
| "decodeSextets [] = []"

definition bufferFromBase64 :: "string \<Rightarrow> int list" where
  \<comment> \<open>the bytes of \<open>Buffer.from(s, "base64")\<close>; no string makes it throw\<close>
  "bufferFromBase64 s = decodeSextets (sextets s)"

type_synonym utf8State = "nat \<times> int \<times> int \<times> int"
  \<comment> \<open>bytes still needed, code point so far, range of the next byte\<close>

definition utf8Init :: utf8State where
  "utf8Init = (0, 0, 0x80, 0xBF)"

definition utf8Lead :: "int \<Rightarrow> int list \<times> utf8State" where
  \<comment> \<open>a byte read when no sequence is open: the output and the next state\<close>
  "utf8Lead b =
     (if b < 0x80 then ([b], utf8Init)
      else if 0xC2 \<le> b \<and> b \<le> 0xDF then ([], (1, b mod 32, 0x80, 0xBF))
      else if 0xE0 \<le> b \<and> b \<le> 0xEF
           then ([], (2, b mod 16, if b = 0xE0 then 0xA0 else 0x80,
                      if b = 0xED then 0x9F else 0xBF))
      else if 0xF0 \<le> b \<and> b \<le> 0xF4
           then ([], (3, b mod 8, if b = 0xF0 then 0x90 else 0x80,
                      if b = 0xF4 then 0x8F else 0xBF))
      else ([0xFFFD], utf8Init))"

definition utf8Step :: "utf8State \<Rightarrow> int \<Rightarrow> int list \<times> utf8State" where
  \<comment> \<open>inside a sequence a byte out of the range ends it with U+FFFD and is read again as
      the start of the next one\<close>
  "utf8Step st b =
     (case st of (needed, cp, lower, upper) \<Rightarrow>
        (case needed of
           0 \<Rightarrow> utf8Lead b
         | Suc more \<Rightarrow>
             if lower \<le> b \<and> b \<le> upper
             then (if more = 0 then ([cp * 64 + b mod 64], utf8Init)
                   else ([], (more, cp * 64 + b mod 64, 0x80, 0xBF)))
             else (0xFFFD # fst (utf8Lead b), snd (utf8Lead b))))"

fun utf8Decode :: "utf8State \<Rightarrow> int list \<Rightarrow> int list" where
  "utf8Decode st [] = (if fst st = 0 then [] else [0xFFFD])"
| "utf8Decode st (b # bs) = fst (utf8Step st b) @ utf8Decode (snd (utf8Step st b)) bs"

definition codeUnits :: "int \<Rightarrow> int list" where
  \<comment> \<open>the UTF-16 code units of a code point\<close>
  "codeUnits cp =
     (if cp < 0x10000 then [cp]
      else [0xD800 + (cp - 0x10000) div 1024, 0xDC00 + (cp - 0x10000) mod 1024])"

definition toStringUtf8 :: "int list \<Rightarrow> string" where
  \<comment> \<open>\<open>buffer.toString("utf-8")\<close>; a code unit above 255 is outside the range of the model,
      \<open>char_of\<close> keeps its low byte\<close>
  "toStringUtf8 bytes = map char_of (concat (map codeUnits (utf8Decode utf8Init bytes)))"

definition bufferBase64ToString :: "string \<Rightarrow> error + string" where
  \<comment> \<open>\<open>Buffer.from(s, "base64").toString("utf-8")\<close>: always a string, never an exception\<close>
  "bufferBase64ToString s = Inr (toStringUtf8 (bufferFromBase64 s))"

section \<open>The body selector\<close>

definition matchGroup :: "string option \<Rightarrow> string" where
  \<comment> \<open>\<open>encMatch?.[1] || ""\<close>\<close>
  "matchGroup m = (case m of None \<Rightarrow> [] | Some g \<Rightarrow> g)"

definition bodyStep ::
  "(string \<Rightarrow> string) \<Rightarrow> (string \<Rightarrow> error + string) \<Rightarrow> string \<times> string \<Rightarrow> string
     \<Rightarrow> string \<times> string" where
  \<comment> \<open>one round of \<open>for (const part of parts)\<close> in \<open>extractBodyFromSource\<close>; the state is
      \<open>(htmlBody, textBody)\<close>, \<open>nestedBody\<close> is the recursive call, and \<open>continue\<close> returns
      the state as it is\<close>
  "bodyStep nestedBody fromBase64 st part =
     (case st of (htmlBody, textBody) \<Rightarrow>
        if startsWith part ''--'' \<or> trim part = [] then st
        else (case indexOf part crlf2 of
                None \<Rightarrow> st
              | Some partHeaderEnd \<Rightarrow>
                  (let partHeaders = toLowerCase (take partHeaderEnd part);
                       partContent = trim (stripTrailingDashes (drop (partHeaderEnd + 4) part))
                   in if matchToken ''boundary='' partHeaders \<noteq> None
                      then (let nested = nestedBody (drop (partHeaderEnd + 4) part)
                            in if nested \<noteq> []
                               then (if htmlBody = [] \<and> includes_str nested ''<''
                                     then (nested, textBody)
                                     else if textBody = [] then (htmlBody, nested)
                                     else st)
                               else st)
                      else (let decoded = decodePart fromBase64 partContent
                                            (matchGroup (matchEncoding False partHeaders))
                            in if includes_str partHeaders ''text/html'' then (decoded, textBody)
                               else if includes_str partHeaders ''text/plain''
                                    then (htmlBody, decoded)
                               else st))))"

definition firstNonEmpty :: "string \<times> string \<Rightarrow> string" where
  \<comment> \<open>\<open>htmlBody || textBody || ""\<close>\<close>
  "firstNonEmpty st =
     (case st of (htmlBody, textBody) \<Rightarrow>
        if htmlBody \<noteq> [] then htmlBody else if textBody \<noteq> [] then textBody else [])"

definition singlePartBody :: "(string \<Rightarrow> error + string) \<Rightarrow> string \<Rightarrow> string" where
  \<comment> \<open>the block under \<open>if (!boundaryMatch)\<close> of \<open>extractBodyFromSource\<close>\<close>
  "singlePartBody fromBase64 raw =
     (case indexOf raw crlf2 of
        None \<Rightarrow> []
      | Some bodyStart \<Rightarrow>
          (let headerSection = toLowerCase (take bodyStart raw);
               body = drop (bodyStart + 4) raw
           in trim (decodePart fromBase64 body
                      (matchGroup (matchEncoding True headerSection)))))"

lemma bodyStep_cong [fundef_cong]:
  assumes "b = b'" and "st = st'" and "part = part'"
    and "\<And>k. indexOf part' crlf2 = Some k \<Longrightarrow> f (drop (k + 4) part') = g (drop (k + 4) part')"
  shows "bodyStep f b st part = bodyStep g b' st' part'"
  using assms by (auto simp: bodyStep_def Let_def split: option.splits prod.splits)

lemma indexOf_bound: "indexOf s p = Some k \<Longrightarrow> k + length p \<le> length s"
proof (induction s arbitrary: k)
  case Nil
  then show ?case by (simp split: if_splits)
next
  case (Cons c cs)
  show ?case
  proof (cases "startsWith (c # cs) p")
    case True
    then have "length (take (length p) (c # cs)) = length p"
      unfolding startsWith_def by simp
    then have "length p \<le> length (c # cs)"
      by simp
    with True Cons.prems show ?thesis by simp
  next
    case False
    with Cons.prems obtain j where "indexOf cs p = Some j" and "k = Suc j"
      by auto
    with Cons.IH show ?thesis by fastforce
  qed
qed

lemma splitStr_length:
  "p \<in> set (splitStr sep acc s) \<Longrightarrow> length p \<le> length acc + length s"
proof (induction sep acc s rule: splitStr.induct)
  case (1 sep acc)
  then show ?case by simp
next
  case (2 sep acc c cs)
  show ?case
  proof (cases "sep \<noteq> [] \<and> startsWith (c # cs) sep")
    case True
    with "2.prems" have "p = rev acc \<or> p \<in> set (splitStr sep [] (drop (length sep) (c # cs)))"
      by simp
    then show ?thesis
    proof
      assume "p = rev acc"
      then show ?thesis by simp
    next
      assume "p \<in> set (splitStr sep [] (drop (length sep) (c # cs)))"
      with "2.IH"(1) True have "length p \<le> length (drop (length sep) (c # cs))"
        by simp
      then show ?thesis by simp
    qed
  next
    case False
    with "2.prems" have "p \<in> set (splitStr sep (c # acc) cs)"
      by auto
    with "2.IH"(2) False show ?thesis by auto
  qed
qed

lemma split_length: "p \<in> set (split s sep) \<Longrightarrow> length p \<le> length s"
  using splitStr_length [of p sep "[]" s] by (simp add: split_def)

lemma nested_shorter:
  assumes "part \<in> set (split raw sep)" and "indexOf part crlf2 = Some k"
  shows "length part - (k + 4) < length raw"
proof -
  have "k + 4 \<le> length part"
    using indexOf_bound [OF assms(2)] by (simp add: crlf2_def)
  moreover have "length part \<le> length raw"
    using assms(1) by (rule split_length)
  ultimately show ?thesis by simp
qed

function extractBodyFromSource :: "(string \<Rightarrow> error + string) \<Rightarrow> string \<Rightarrow> string" where
  "extractBodyFromSource fromBase64 raw =
     (case matchToken ''boundary='' raw of
        None \<Rightarrow> singlePartBody fromBase64 raw
      | Some boundaryMatch \<Rightarrow>
          (let boundary = trim boundaryMatch;
               parts = split raw (''--'' @ boundary)
           in firstNonEmpty
                (foldl (bodyStep (\<lambda>nestedRaw. extractBodyFromSource fromBase64 nestedRaw)
                          fromBase64)
                   ([], []) parts)))"
  by pat_completeness auto
termination
  by (relation "measure (\<lambda>(fromBase64, raw). length raw)") (auto intro: nested_shorter)

declare extractBodyFromSource.simps [simp del]

section \<open>The attachment collector\<close>

record attachment =
  filename :: string
  mimeType :: string
  size_att :: nat
  base64 :: string

definition base64Alphabet :: string where
  "base64Alphabet = ''ABCDEFGHIJKLMNOPQRSTUVWXYZabcdefghijklmnopqrstuvwxyz0123456789+/''"

definition sextet :: "nat \<Rightarrow> char" where
  "sextet n = base64Alphabet ! (n mod 64)"

fun encodeBytes :: "nat list \<Rightarrow> string" where
  \<comment> \<open>\<open>buffer.toString("base64")\<close>: three bytes give four characters, the rest is padded\<close>
  "encodeBytes (a # b # c # bs) =
     sextet (a div 4) # sextet ((a mod 4) * 16 + b div 16)
       # sextet ((b mod 16) * 4 + c div 64) # sextet (c mod 64) # encodeBytes bs"
| "encodeBytes [a, b] =
     [sextet (a div 4), sextet ((a mod 4) * 16 + b div 16), sextet ((b mod 16) * 4), CHR ''='']"
| "encodeBytes [a] = [sextet (a div 4), sextet ((a mod 4) * 16), CHR ''='', CHR ''='']"
| "encodeBytes [] = []"

definition toBase64Binary :: "string \<Rightarrow> string" where
  \<comment> \<open>\<open>Buffer.from(partContent, "binary").toString("base64")\<close>: one byte for each code unit\<close>
  "toBase64Binary s = encodeBytes (map of_char s)"

definition isAttachment :: "string \<Rightarrow> bool" where
  "isAttachment partHeaders =
     (includes_str partHeaders ''content-disposition: attachment'' \<or>
      (includes_str partHeaders ''filename='' \<and> \<not> includes_str partHeaders ''text/plain''
       \<and> \<not> includes_str partHeaders ''text/html''))"

definition isInlineWithFilename :: "string \<Rightarrow> bool" where
  "isInlineWithFilename partHeaders =
     (includes_str partHeaders ''content-disposition: inline''
      \<and> includes_str partHeaders ''filename='')"

definition partEncoding :: "string \<Rightarrow> string" where
  \<comment> \<open>\<open>encMatch ? encMatch[1].trim().toLowerCase() : ""\<close>\<close>
  "partEncoding partHeaders =
     (case matchEncoding False partHeaders of None \<Rightarrow> [] | Some g \<Rightarrow> toLowerCase (trim g))"

definition base64Data :: "string \<Rightarrow> string \<Rightarrow> string" where
  "base64Data partHeaders partContent =
     (if partEncoding partHeaders = ''base64'' then stripWs partContent
      else toBase64Binary partContent)"

definition attachmentFilename :: "string \<Rightarrow> string" where
  \<comment> \<open>\<open>filenameMatch ? filenameMatch[1].trim() : "attachment"\<close>\<close>
  "attachmentFilename partHeadersRaw =
     (case matchToken ''filename='' partHeadersRaw of
        Some g \<Rightarrow> trim g
      | None \<Rightarrow> ''attachment'')"

definition attachmentMimeType :: "string \<Rightarrow> string" where
  \<comment> \<open>\<open>ctMatch ? ctMatch[1].trim() : "application/octet-stream"\<close>\<close>
  "attachmentMimeType partHeadersRaw =
     (case matchContentType partHeadersRaw of
        Some g \<Rightarrow> trim g
      | None \<Rightarrow> ''application/octet-stream'')"

definition leafAttachment :: "string \<Rightarrow> string \<Rightarrow> attachment list" where
  \<comment> \<open>what a part without a boundary of its own adds to \<open>attachments\<close>;
      \<open>Math.ceil(n * 3 / 4)\<close> is \<open>(n * 3 + 3) div 4\<close>\<close>
  "leafAttachment partHeadersRaw partContent =
     (let partHeaders = toLowerCase partHeadersRaw
      in if isAttachment partHeaders \<or> isInlineWithFilename partHeaders
         then (let filename = attachmentFilename partHeadersRaw;
                   mimeType = attachmentMimeType partHeadersRaw;
                   data = base64Data partHeaders partContent
               in if data \<noteq> []
                  then [\<lparr>filename = filename, mimeType = mimeType,
                         size_att = (length data * 3 + 3) div 4, base64 = data\<rparr>]
                  else [])
         else [])"

definition attachStep ::
  "(string \<Rightarrow> attachment list) \<Rightarrow> attachment list \<Rightarrow> string \<Rightarrow> attachment list" where
  \<comment> \<open>one round of \<open>for (const part of parts)\<close> in \<open>extractAttachmentsFromSource\<close>\<close>
  "attachStep nestedAttachments attachments part =
     (if startsWith part ''--'' \<or> trim part = [] then attachments
      else (case indexOf part crlf2 of
              None \<Rightarrow> attachments
            | Some partHeaderEnd \<Rightarrow>
                (let partHeadersRaw = take partHeaderEnd part;
                     partHeaders = toLowerCase partHeadersRaw;
                     partContent = trim (stripTrailingDashes (drop (partHeaderEnd + 4) part))
                 in if matchToken ''boundary='' partHeaders \<noteq> None
                    then attachments @ nestedAttachments (drop (partHeaderEnd + 4) part)
                    else attachments @ leafAttachment partHeadersRaw partContent)))"

lemma attachStep_cong [fundef_cong]:
  assumes "acc = acc'" and "part = part'"
    and "\<And>k. indexOf part' crlf2 = Some k \<Longrightarrow> f (drop (k + 4) part') = g (drop (k + 4) part')"
  shows "attachStep f acc part = attachStep g acc' part'"
  using assms by (auto simp: attachStep_def Let_def split: option.splits)

function extractAttachmentsFromSource :: "string \<Rightarrow> attachment list" where
  "extractAttachmentsFromSource raw =
     (case matchToken ''boundary='' raw of
        None \<Rightarrow> []
      | Some boundaryMatch \<Rightarrow>
          (let boundary = trim boundaryMatch;
               parts = split raw (''--'' @ boundary)
           in foldl (attachStep (\<lambda>nestedRaw. extractAttachmentsFromSource nestedRaw)) [] parts))"
  by pat_completeness auto
termination
  by (relation "measure length") (auto intro: nested_shorter)

declare extractAttachmentsFromSource.simps [simp del]

section \<open>The transporter cache\<close>

















section \<open>Example messages\<close>


definition alternativeExample :: string where
  "alternativeExample =
     ''Content-Type: multipart/alternative; boundary=XYZ'' @ crlf2
     @ ''--XYZ'' @ [CR, LF] @ ''Content-Type: text/plain'' @ crlf2 @ ''hello'' @ [CR, LF]
     @ ''--XYZ'' @ [CR, LF] @ ''Content-Type: text/html'' @ crlf2 @ ''<b>hi</b>'' @ [CR, LF]
     @ ''--XYZ--''"

definition plainExample :: string where
  "plainExample = ''Content-Type: text/plain'' @ crlf2 @ ''hello world''"

definition paddedExample :: string where
  "paddedExample = ''Content-Type: text/plain'' @ crlf2 @ ''  hello world '' @ [CR, LF]"

definition bodyTokenExample :: string where
  "bodyTokenExample = ''Subject: hi'' @ crlf2 @ ''boundary=x''"

definition secondHtmlPart :: string where
  "secondHtmlPart = [CR, LF] @ ''Content-Type: text/html'' @ crlf2 @ ''<b>two</b>'' @ [CR, LF]"

definition twoHtmlExample :: string where
  "twoHtmlExample =
     ''Content-Type: multipart/alternative; boundary=XYZ'' @ crlf2
     @ ''--XYZ'' @ [CR, LF] @ ''Content-Type: text/html'' @ crlf2 @ ''<b>one</b>'' @ [CR, LF]
     @ ''--XYZ'' @ secondHtmlPart
     @ ''--XYZ--''"

definition attachmentHeaders :: string where
  "attachmentHeaders =
     ''Content-Disposition: attachment; filename=\"a.txt\"'' @ [CR, LF]
     @ ''Content-Transfer-Encoding: base64''"

definition attachmentExample :: string where
  "attachmentExample =
     ''Content-Type: multipart/mixed; boundary=XYZ'' @ crlf2
     @ ''--XYZ'' @ [CR, LF] @ attachmentHeaders @ crlf2 @ ''aGVsbG8='' @ [CR, LF]
     @ ''--XYZ--''"

definition emptyAttachmentExample :: string where
  "emptyAttachmentExample =
     ''Content-Type: multipart/mixed; boundary=XYZ'' @ crlf2
     @ ''--XYZ'' @ [CR, LF] @ attachmentHeaders @ crlf2 @ [CR, LF]
     @ ''--XYZ--''"

definition mixedBodyExample :: string where
  "mixedBodyExample =
     ''Content-Type: multipart/mixed; boundary=XYZ'' @ crlf2
     @ ''--XYZ'' @ [CR, LF] @ ''Content-Type: text/plain'' @ crlf2 @ ''Dear all'' @ [CR, LF]
     @ ''--XYZ'' @ [CR, LF] @ ''Content-Type: text/plain; name=\"notes.txt\"'' @ [CR, LF]
     @ ''Content-Disposition: attachment; filename=\"notes.txt\"'' @ crlf2
     @ ''attached notes'' @ [CR, LF]
     @ ''--XYZ--''"

definition nestedExample :: string where
  "nestedExample =
     ''Content-Type: multipart/mixed; boundary=OUT'' @ crlf2
     @ ''--OUT'' @ [CR, LF] @ ''Content-Type: multipart/alternative; boundary=IN'' @ crlf2
     @ ''--IN'' @ [CR, LF] @ ''Content-Type: text/plain'' @ crlf2 @ ''hello'' @ [CR, LF]
     @ ''--IN'' @ [CR, LF] @ ''Content-Type: text/html'' @ crlf2 @ ''<b>hi</b>'' @ [CR, LF]
     @ ''--IN--'' @ [CR, LF]
     @ ''--OUT--''"

definition foldedAttachmentExample :: string where
  "foldedAttachmentExample =
     ''Content-Type: multipart/mixed; boundary=XYZ'' @ crlf2
     @ ''--XYZ'' @ [CR, LF] @ attachmentHeaders @ crlf2
     @ ''aGVs'' @ [CR, LF] @ ''bG8='' @ [CR, LF]
     @ ''--XYZ--''"

section \<open>Properties of the transfer-encoding decoder\<close>

lemma lowerChar_idem: "lowerChar (lowerChar c) = lowerChar c"
proof -
  have "of_char c < (256::nat)"
    by simp
  then show ?thesis
    unfolding lowerChar_def Let_def by (auto simp: of_char_of [where ?'a = nat])
qed

lemma toLowerCase_idem: "toLowerCase (toLowerCase s) = toLowerCase s"
  by (simp add: toLowerCase_def lowerChar_idem)

lemma toLowerCase_Nil_iff: "toLowerCase s = [] \<longleftrightarrow> s = []"
  by (simp add: toLowerCase_def)






text \<open>
  Claim C5. The name of the encoding is compared in lower case: \<open>BASE64\<close> decodes as \<open>base64\<close>
  does, and so does every encoding and its lower-case form.
\<close>

theorem decodePart_case_insensitive:
  "decodePart fromBase64 C ''BASE64'' = decodePart fromBase64 C ''base64'' \<and>
   decodePart fromBase64 C (toLowerCase encoding) = decodePart fromBase64 C encoding"
proof -
  have "toLowerCase ''BASE64'' = ''base64''"
    by code_simp
  moreover have "decodePart fromBase64 C (toLowerCase enc) = decodePart fromBase64 C enc" for enc
    by (simp add: decodePart_def toLowerCase_idem toLowerCase_Nil_iff)
  ultimately show ?thesis
    by metis
qed

text \<open>
  Claim C3. The decoder of the runtime returns a string for every text, so the \<open>catch\<close>
  of \<open>decodePart\<close> is never entered: with the encoding \<open>base64\<close> the result is the decoded
  text whatever the content. The content \<open>!!!\<close>, which is not base64, gives the empty
  string and not \<open>!!!\<close>; the content \<open>aGk=\<close> gives \<open>hi\<close>.
\<close>

theorem base64_failure_not_caught:
  "bufferBase64ToString s \<noteq> Inl e \<and>
   decodePart bufferBase64ToString content ''base64''
     = toStringUtf8 (bufferFromBase64 (stripWs content)) \<and>
   decodePart bufferBase64ToString ''!!!'' ''base64'' = [] \<and>
   decodePart bufferBase64ToString ''!!!'' ''base64'' \<noteq> ''!!!'' \<and>
   decodePart bufferBase64ToString ''aGk='' ''base64'' = ''hi''"
proof -
  have name: "trim (toLowerCase ''base64'') = ''base64''"
    by code_simp
  have general: "decodePart bufferBase64ToString c ''base64''
                   = toStringUtf8 (bufferFromBase64 (stripWs c))" for c
    using name by (simp add: decodePart_def bufferBase64ToString_def Let_def)
  have bad: "decodePart bufferBase64ToString ''!!!'' ''base64'' = []"
    by code_simp
  have good: "decodePart bufferBase64ToString ''aGk='' ''base64'' = ''hi''"
    by code_simp
  from general bad good show ?thesis
    by (simp add: bufferBase64ToString_def)
qed

section \<open>Properties of the body selector\<close>

lemma single_unfold:
  assumes "matchToken ''boundary='' raw = None"
  shows "extractBodyFromSource f raw = singlePartBody f raw"
  using assms by (simp add: extractBodyFromSource.simps [of f raw])

text \<open>
  Claim C6. The body of the \<open>multipart/alternative\<close> message with a \<open>text/plain\<close> part \<open>hello\<close>
  and a \<open>text/html\<close> part \<open><b>hi</b>\<close> is \<open><b>hi</b>\<close>.
\<close>

theorem alternative_body: "extractBodyFromSource fromBase64 alternativeExample = ''<b>hi</b>''"
  by code_simp

text \<open>
  Claim C7. The body of the message \<open>Content-Type: text/plain\<close>, blank line, \<open>hello world\<close>
  is \<open>hello world\<close> and it has no attachments; the body of a source without a boundary
  is trimmed after decoding.
\<close>

theorem plain_message:
  "extractBodyFromSource f plainExample = ''hello world'' \<and>
   extractAttachmentsFromSource plainExample = [] \<and>
   (matchToken ''boundary='' raw = None \<and> indexOf raw crlf2 = Some bodyStart \<longrightarrow>
      extractBodyFromSource f raw =
        trim (decodePart f (drop (bodyStart + 4) raw)
                (matchGroup (matchEncoding True (toLowerCase (take bodyStart raw))))))"
proof -
  have "extractBodyFromSource f plainExample = ''hello world''"
    by code_simp
  moreover have "extractAttachmentsFromSource plainExample = []"
    by code_simp
  ultimately show ?thesis
    by (simp add: single_unfold singlePartBody_def Let_def)
qed

theorem plain_message_witness:
  "matchToken ''boundary='' paddedExample = None \<and>
   indexOf paddedExample crlf2 = Some 24 \<and>
   extractBodyFromSource bufferBase64ToString paddedExample = ''hello world''"
proof -
  have m: "matchToken ''boundary='' paddedExample = None"
    by code_simp
  have i: "indexOf paddedExample crlf2 = Some 24"
    by code_simp
  have d: "trim (decodePart bufferBase64ToString (drop (24 + 4) paddedExample)
                  (matchGroup (matchEncoding True (toLowerCase (take 24 paddedExample)))))
           = ''hello world''"
    by code_simp
  show ?thesis
    using plain_message [of bufferBase64ToString paddedExample 24] m i d by simp
qed

text \<open>
  Claim C2 fails on the code. The header of the first message, \<open>Subject: hi\<close>, has no
  \<open>boundary=\<close> token; the token is found in the body, the multipart path is taken and the
  body returned is empty, where the message split at its first blank line has the body
  \<open>boundary=x\<close>. In the second message the header of the inner part has the token; the
  recursive call gets the text after that header, finds no token in it and returns the
  inner parts undivided, with their delimiters and headers.
\<close>

theorem boundary_token_not_from_header:
  "bodyTokenExample = ''Subject: hi'' @ crlf2 @ ''boundary=x'' \<and>
   indexOf bodyTokenExample crlf2 = Some 11 \<and>
   matchToken ''boundary='' (take 11 bodyTokenExample) = None \<and>
   matchToken ''boundary='' bodyTokenExample = Some ''x'' \<and>
   singlePartBody fromBase64 bodyTokenExample = ''boundary=x'' \<and>
   extractBodyFromSource fromBase64 bodyTokenExample = [] \<and>
   extractBodyFromSource fromBase64 nestedExample =
     ''hello'' @ [CR, LF] @ ''--IN'' @ [CR, LF] @ ''Content-Type: text/html'' @ crlf2
     @ ''<b>hi</b>'' @ [CR, LF] @ ''--IN--''"
  by code_simp

text \<open>
  Claim C1 fails on the code. In a message with two \<open>text/html\<close> parts the HTML candidate is
  \<open><b>one</b>\<close> after the first part, the second part replaces it and the body is
  \<open><b>two</b>\<close>. In a message with a \<open>text/plain\<close> body and a \<open>text/plain\<close> attachment the
  candidate is \<open>Dear all\<close> after the body part and the body returned is the text of the
  attachment.
\<close>

theorem later_leaf_replaces_candidate:
  "foldl (bodyStep (extractBodyFromSource fromBase64) fromBase64) ([], [])
     (take 2 (split twoHtmlExample ''--XYZ'')) = (''<b>one</b>'', []) \<and>
   foldl (bodyStep (extractBodyFromSource fromBase64) fromBase64) ([], [])
     (take 3 (split twoHtmlExample ''--XYZ'')) = (''<b>two</b>'', []) \<and>
   extractBodyFromSource fromBase64 twoHtmlExample = ''<b>two</b>'' \<and>
   foldl (bodyStep (extractBodyFromSource fromBase64) fromBase64) ([], [])
     (take 2 (split mixedBodyExample ''--XYZ'')) = ([], ''Dear all'') \<and>
   extractBodyFromSource fromBase64 mixedBodyExample = ''attached notes''"
  by code_simp

section \<open>Properties of the attachment collector\<close>

lemma size_is_ceiling: "(n * 3 + 3) div 4 = nat \<lceil>real n * 3 / 4\<rceil>"
  by linarith

lemma leafAttachment_base64:
  assumes "isAttachment (toLowerCase partHeadersRaw)
           \<or> isInlineWithFilename (toLowerCase partHeadersRaw)"
    and "partEncoding (toLowerCase partHeadersRaw) = ''base64''"
  shows "leafAttachment partHeadersRaw partContent =
           (if stripWs partContent = [] then []
            else [\<lparr>filename = attachmentFilename partHeadersRaw,
                   mimeType = attachmentMimeType partHeadersRaw,
                   size_att = (length (stripWs partContent) * 3 + 3) div 4,
                   base64 = stripWs partContent\<rparr>])"
  using assms by (auto simp: leafAttachment_def base64Data_def Let_def)

lemma attachStep_leaf:
  assumes "\<not> startsWith part ''--''" and "trim part \<noteq> []"
    and "indexOf part crlf2 = Some partHeaderEnd"
    and "matchToken ''boundary='' (toLowerCase (take partHeaderEnd part)) = None"
  shows "attachStep nested attachments part =
           attachments @ leafAttachment (take partHeaderEnd part)
                           (trim (stripTrailingDashes (drop (partHeaderEnd + 4) part)))"
  using assms by (simp add: attachStep_def Let_def)

lemma stripWs_filter:
  "stripWs s =
     filter (\<lambda>c. c \<notin> set [CHR 0x09, CHR 0x0A, CHR 0x0B, CHR 0x0C, CHR 0x0D, CHR 0x20, CHR 0xA0]) s"
  unfolding stripWs_def by (rule filter_cong) (auto simp: isWs_def)

text \<open>
  Claim C8. A part without a boundary of its own adds the attachment of its header block
  and its content. When it is classified as an attachment and its encoding is \<open>base64\<close>, the
  payload is the content with every TAB, LF, VT, FF, CR, SPACE and NBSP taken out and
  nothing else changed, and the size is \<open>ceil(length * 3 / 4)\<close> of that text. The part with
  the file name \<open>a.txt\<close> and the content \<open>aGVsbG8=\<close> gives one attachment of size 6, and so
  does the same content folded over two lines.
\<close>

theorem base64_attachment_verbatim:
  "(\<not> startsWith part ''--'' \<and> trim part \<noteq> [] \<and> indexOf part crlf2 = Some partHeaderEnd \<and>
    matchToken ''boundary='' (toLowerCase (take partHeaderEnd part)) = None \<longrightarrow>
      attachStep nested attachments part =
        attachments @ leafAttachment (take partHeaderEnd part)
                        (trim (stripTrailingDashes (drop (partHeaderEnd + 4) part)))) \<and>
   ((isAttachment (toLowerCase partHeadersRaw) \<or> isInlineWithFilename (toLowerCase partHeadersRaw))
    \<and> partEncoding (toLowerCase partHeadersRaw) = ''base64''
    \<and> payload = filter (\<lambda>c. c \<notin> set [CHR 0x09, CHR 0x0A, CHR 0x0B, CHR 0x0C, CHR 0x0D,
                                        CHR 0x20, CHR 0xA0]) partContent
    \<and> payload \<noteq> [] \<longrightarrow>
      leafAttachment partHeadersRaw partContent =
        [\<lparr>filename = attachmentFilename partHeadersRaw,
          mimeType = attachmentMimeType partHeadersRaw,
          size_att = nat \<lceil>real (length payload) * 3 / 4\<rceil>,
          base64 = payload\<rparr>]) \<and>
   extractAttachmentsFromSource attachmentExample =
     [\<lparr>filename = ''a.txt'', mimeType = ''application/octet-stream'',
       size_att = 6, base64 = ''aGVsbG8=''\<rparr>] \<and>
   extractAttachmentsFromSource foldedAttachmentExample =
     [\<lparr>filename = ''a.txt'', mimeType = ''application/octet-stream'',
       size_att = 6, base64 = ''aGVsbG8=''\<rparr>]"
proof -
  have plain: "extractAttachmentsFromSource attachmentExample =
     [\<lparr>filename = ''a.txt'', mimeType = ''application/octet-stream'',
       size_att = 6, base64 = ''aGVsbG8=''\<rparr>]"
    by code_simp
  have folded: "extractAttachmentsFromSource foldedAttachmentExample =
     [\<lparr>filename = ''a.txt'', mimeType = ''application/octet-stream'',
       size_att = 6, base64 = ''aGVsbG8=''\<rparr>]"
    by code_simp
  have leaf: "leafAttachment partHeadersRaw partContent =
        [\<lparr>filename = attachmentFilename partHeadersRaw,
          mimeType = attachmentMimeType partHeadersRaw,
          size_att = nat \<lceil>real (length payload) * 3 / 4\<rceil>,
          base64 = payload\<rparr>]"
    if "isAttachment (toLowerCase partHeadersRaw) \<or> isInlineWithFilename (toLowerCase partHeadersRaw)"
      and "partEncoding (toLowerCase partHeadersRaw) = ''base64''"
      and "payload = filter (\<lambda>c. c \<notin> set [CHR 0x09, CHR 0x0A, CHR 0x0B, CHR 0x0C, CHR 0x0D,
                                        CHR 0x20, CHR 0xA0]) partContent"
      and "payload \<noteq> []"
  proof -
    from that(3) have p: "payload = stripWs partContent"
      by (simp only: stripWs_filter)
    with that(4) have "stripWs partContent \<noteq> []"
      by simp
    with leafAttachment_base64 [OF that(1) that(2), of partContent] p show ?thesis
      by (simp add: size_is_ceiling)
  qed
  from plain folded leaf attachStep_leaf [of part partHeaderEnd nested attachments]
  show ?thesis
    by blast
qed

theorem base64_attachment_verbatim_witness:
  "leafAttachment attachmentHeaders (''aG Vs'' @ [CR, LF, CHR 0x09] @ ''bG8='') =
     [\<lparr>filename = ''a.txt'', mimeType = ''application/octet-stream'',
       size_att = 6, base64 = ''aGVsbG8=''\<rparr>] \<and>
   attachStep extractAttachmentsFromSource []
       ([CR, LF] @ attachmentHeaders @ crlf2 @ ''aGVs'' @ [CR, LF] @ ''bG8='' @ [CR, LF]) =
     leafAttachment ([CR, LF] @ attachmentHeaders) (''aGVs'' @ [CR, LF] @ ''bG8='')"
proof -
  have a: "isAttachment (toLowerCase attachmentHeaders)"
    and b: "partEncoding (toLowerCase attachmentHeaders) = ''base64''"
    and c: "filter (\<lambda>c. c \<notin> set [CHR 0x09, CHR 0x0A, CHR 0x0B, CHR 0x0C, CHR 0x0D,
                                 CHR 0x20, CHR 0xA0]) (''aG Vs'' @ [CR, LF, CHR 0x09] @ ''bG8='')
            = ''aGVsbG8=''"
    and d: "attachmentFilename attachmentHeaders = ''a.txt''"
    and e: "attachmentMimeType attachmentHeaders = ''application/octet-stream''"
    by code_simp+
  have p1: "\<not> startsWith ([CR, LF] @ attachmentHeaders @ crlf2 @ ''aGVs'' @ [CR, LF] @ ''bG8=''
                            @ [CR, LF]) ''--''"
    and p2: "trim ([CR, LF] @ attachmentHeaders @ crlf2 @ ''aGVs'' @ [CR, LF] @ ''bG8=''
                   @ [CR, LF]) \<noteq> []"
    and p3: "indexOf ([CR, LF] @ attachmentHeaders @ crlf2 @ ''aGVs'' @ [CR, LF] @ ''bG8=''
                      @ [CR, LF]) crlf2 = Some 86"
    and p4: "matchToken ''boundary='' (toLowerCase
               (take 86 ([CR, LF] @ attachmentHeaders @ crlf2 @ ''aGVs'' @ [CR, LF] @ ''bG8=''
                         @ [CR, LF]))) = None"
    and p5: "take 86 ([CR, LF] @ attachmentHeaders @ crlf2 @ ''aGVs'' @ [CR, LF] @ ''bG8=''
                      @ [CR, LF])
               = [CR, LF] @ attachmentHeaders"
    and p6: "trim (stripTrailingDashes
               (drop (86 + 4) ([CR, LF] @ attachmentHeaders @ crlf2 @ ''aGVs'' @ [CR, LF]
                               @ ''bG8='' @ [CR, LF])))
               = ''aGVs'' @ [CR, LF] @ ''bG8=''"
    by code_simp+
  have n: "nat \<lceil>real (length ''aGVsbG8='') * 3 / 4\<rceil> = 6"
    by simp
  show ?thesis
    using base64_attachment_verbatim [where
        part = "[CR, LF] @ attachmentHeaders @ crlf2 @ ''aGVs'' @ [CR, LF] @ ''bG8='' @ [CR, LF]"
        and partHeaderEnd = 86 and nested = extractAttachmentsFromSource and attachments = "[]"
        and partHeadersRaw = attachmentHeaders
        and partContent = "''aG Vs'' @ [CR, LF, CHR 0x09] @ ''bG8=''"
        and payload = "''aGVsbG8=''"]
      a b c d e p1 p2 p3 p4 p5 p6 n
    by simp
qed

lemma base64Data_empty: "base64Data partHeaders [] = []"
  by (simp add: base64Data_def stripWs_def toBase64Binary_def)

text \<open>
  Claim C10. A part classified as an attachment whose base64 text is empty adds nothing
  to the list; a part with empty content is such a part.
\<close>

theorem empty_payload_omitted:
  "((isAttachment (toLowerCase partHeadersRaw) \<or> isInlineWithFilename (toLowerCase partHeadersRaw))
    \<and> base64Data (toLowerCase partHeadersRaw) partContent = [] \<longrightarrow>
      leafAttachment partHeadersRaw partContent = []) \<and>
   leafAttachment partHeadersRaw [] = [] \<and>
   extractAttachmentsFromSource emptyAttachmentExample = []"
proof -
  have "extractAttachmentsFromSource emptyAttachmentExample = []"
    by code_simp
  then show ?thesis
    by (simp add: leafAttachment_def Let_def base64Data_empty)
qed

theorem empty_payload_omitted_witness:
  "isAttachment (toLowerCase attachmentHeaders) \<and>
   base64Data (toLowerCase attachmentHeaders) [] = [] \<and>
   leafAttachment attachmentHeaders [] = []"
proof -
  have a: "isAttachment (toLowerCase attachmentHeaders)"
    by code_simp
  have b: "base64Data (toLowerCase attachmentHeaders) [] = []"
    by (rule base64Data_empty)
  show ?thesis
    using empty_payload_omitted [where partHeadersRaw = attachmentHeaders and partContent = "[]"]
      a b
    by blast
qed

section \<open>Properties of the transporter cache\<close>















end
